theory Spec2Isabelle
  imports Complex_Main
begin

section \<open>Office location configuration and proximity check (src/config/office.ts)\<close>

text \<open>
  The code computes with JavaScript values of type \<open>number\<close>, IEEE doubles: every decimal
  literal denotes the nearest double, every operation rounds its result, \<open>Math.sin\<close>,
  \<open>Math.cos\<close> and \<open>Math.atan2\<close> are approximations, and a result can be \<open>NaN\<close>. The
  computation is given twice. This section gives it in exact arithmetic, with numbers as
  real numbers, \<open>Math.PI\<close> as \<open>pi\<close> and \<open>Math.sin\<close>, \<open>Math.cos\<close>, \<open>Math.sqrt\<close> as \<open>sin\<close>, \<open>cos\<close>,
  \<open>sqrt\<close>: what the formula computes when nothing is rounded. The next section gives it over
  an arbitrary arithmetic, every primitive the code uses being a parameter, so that double
  arithmetic is an instance of it.
\<close>

record latlng =
  lat :: real
  lng :: real

record office_config =
  coordinates :: latlng
  allowedRadius :: real
  enforceLocationCheck :: bool

definition OFFICE_CONFIG :: office_config where
  "OFFICE_CONFIG =
     \<lparr>coordinates = \<lparr>lat = 11.603722, lng = 76.209250\<rparr>,
      allowedRadius = 100,
      enforceLocationCheck = True\<rparr>"

text \<open>
  \<open>Math.atan2(y, x)\<close>: the angle of the point \<open>(x, y)\<close>, in \<open>(-pi, pi]\<close>, by quadrant;
  \<open>Math.atan2(0, 0)\<close> is \<open>0\<close>.
\<close>

definition atan2 :: "real \<Rightarrow> real \<Rightarrow> real" where
  "atan2 y x =
     (if 0 < x then arctan (y / x)
      else if x < 0 then (if 0 \<le> y then arctan (y / x) + pi else arctan (y / x) - pi)
      else if 0 < y then pi / 2
      else if y < 0 then - (pi / 2)
      else 0)"

text \<open>\<open>Math.round\<close> rounds to the nearest integer, a half towards \<open>+\<infinity>\<close>.\<close>

definition Math_round :: "real \<Rightarrow> real" where
  "Math_round x = of_int \<lfloor>x + 1 / 2\<rfloor>"

text \<open>
  \<open>calculateDistance\<close>, line by line, in exact arithmetic. \<open>phi1\<close>, \<open>phi2\<close>, \<open>dphi\<close> and \<open>dlambda\<close>
  are the source's Greek-named constants. In exact arithmetic \<open>a\<close> lies in \<open>[0, 1]\<close> (lemma
  \<open>haversine_a_range\<close> below) and both square roots are defined; in double arithmetic rounding
  can take \<open>a\<close> above 1 for nearly antipodal points, and the code then returns \<open>NaN\<close>.
\<close>

definition calculateDistance :: "real \<Rightarrow> real \<Rightarrow> real \<Rightarrow> real \<Rightarrow> real" where
  "calculateDistance lat1 lng1 lat2 lng2 =
     (let R = 6371000;
          phi1 = (lat1 * pi) / 180;
          phi2 = (lat2 * pi) / 180;
          dphi = ((lat2 - lat1) * pi) / 180;
          dlambda = ((lng2 - lng1) * pi) / 180;
          a = sin (dphi / 2) * sin (dphi / 2) +
              cos phi1 * cos phi2 * sin (dlambda / 2) * sin (dlambda / 2);
          c = 2 * atan2 (sqrt a) (sqrt (1 - a))
      in R * c)"

record range_check =
  isWithinRange :: bool
  distance :: real

text \<open>
  \<open>isWithinOfficeRange\<close> in exact arithmetic: the comparison and \<open>Math.round\<close> act on the exact
  distance to the exact decimal office coordinates.
\<close>

definition isWithinOfficeRange :: "real \<Rightarrow> real \<Rightarrow> range_check" where
  "isWithinOfficeRange employeeLat employeeLng =
     (let distance = calculateDistance employeeLat employeeLng
                       (lat (coordinates OFFICE_CONFIG)) (lng (coordinates OFFICE_CONFIG))
      in \<lparr>isWithinRange = (distance \<le> allowedRadius OFFICE_CONFIG),
          distance = Math_round distance\<rparr>)"

text \<open>
  The specification names the computation: the great-circle distance by the Haversine
  formula, with mean Earth radius 6371000 m. In its textbook form, with
  \<open>hav \<theta> = sin\<^sup>2 (\<theta> / 2)\<close> and all angles in radians, the haversine of the central angle
  between two points is \<open>h = hav \<Delta>\<phi> + cos \<phi>\<^sub>1 * cos \<phi>\<^sub>2 * hav \<Delta>\<lambda>\<close>, and the distance is
  \<open>2 * R * arcsin (sqrt h)\<close>. The central angle itself is the angle between the two unit
  vectors, the arc cosine of their inner product.
\<close>

definition haversine_a :: "real \<Rightarrow> real \<Rightarrow> real \<Rightarrow> real \<Rightarrow> real" where
  "haversine_a lat1 lng1 lat2 lng2 =
     (sin (((lat2 - lat1) * pi) / 180 / 2))\<^sup>2 +
     cos ((lat1 * pi) / 180) * cos ((lat2 * pi) / 180) *
       (sin (((lng2 - lng1) * pi) / 180 / 2))\<^sup>2"



section \<open>The proximity check over an arbitrary arithmetic\<close>






section \<open>Strings, toasts and the backend client\<close>

text \<open>
  JavaScript strings are modelled as \<open>string\<close>, one character per UTF-16 code unit below
  256. \<open>String.prototype.trim\<close> removes white space and line terminators from both ends; among
  these code units they are TAB, LF, VT, FF, CR, SP and NBSP.
\<close>

definition is_whitespace :: "char \<Rightarrow> bool" where
  "is_whitespace c = (of_char c \<in> {9, 10, 11, 12, 13, 32, 160 :: nat})"

definition trim :: "string \<Rightarrow> string" where
  "trim s = rev (dropWhile is_whitespace (rev (dropWhile is_whitespace s)))"

text \<open>
  The values that occur in the object literals handed to the backend client. A property
  whose value is \<open>undefined\<close> (as \<open>employee?.employee_id\<close> for a missing employee) is kept as
  \<open>JUndefined\<close>.
\<close>

datatype json = JUndefined | JNull | JStr string | JNum real

text \<open>
  The two write calls the components issue through the client:
  \<open>supabase.from(table).insert(obj)\<close> and \<open>supabase.from(table).update(obj).eq(column, value)\<close>.
\<close>

datatype db_call =
  Insert string "(string \<times> json) list"
| Update string "(string \<times> json) list" string json

text \<open>A row of the \<open>employees\<close> table as \<open>useAuth\<close> provides it; \<open>location_flag\<close> is the
  source's \<open>employee.location\<close>.\<close>

record employee_row =
  employee_id :: string
  location_flag :: "string option"

text \<open>A row of the \<open>attendance\<close> table; \<open>att_id\<close> is the source's \<open>id\<close>.\<close>

record attendance_row =
  att_id :: string
  check_in_time :: "string option"
  check_out_time :: "string option"

text \<open>The client's answer \<open>{ data, error }\<close>; the error is kept as its message.\<close>

record db_response =
  data :: "attendance_row option"
  error :: "string option"

record toast =
  title :: string
  description :: string
  variant :: "string option"
  duration :: "nat option"

text \<open>
  What a handler does besides changing the component's state, in the order it does it:
  calls to the backend, toasts, invalidated query keys and \<open>console.error\<close>.
\<close>

datatype effect =
  Call db_call
| Toast toast
| Invalidate string
| ConsoleError string

fun calls_of :: "effect list \<Rightarrow> db_call list" where
  "calls_of [] = []"
| "calls_of (Call c # es) = c # calls_of es"
| "calls_of (_ # es) = calls_of es"

fun toasts_of :: "effect list \<Rightarrow> toast list" where
  "toasts_of [] = []"
| "toasts_of (Toast t # es) = t # toasts_of es"
| "toasts_of (_ # es) = toasts_of es"

text \<open>
  What a handler reads from outside the component: the backend's answer to a call, the
  clock (\<open>new Date().toISOString()\<close> and the local calendar date derived from it), and the
  conversion of a number to a string inside a template literal.
\<close>

record env =
  backend :: "db_call \<Rightarrow> db_response"
  localDateTime :: string
  localDate :: string
  toString :: "real \<Rightarrow> string"

section \<open>The attendance screen (MarkAttendance in src/components/admin/AdminAttendance.tsx)\<close>

text \<open>The message banner; \<open>msg_type\<close> and \<open>msg_text\<close> are the source's \<open>type\<close> and \<open>text\<close>.\<close>

record message =
  msg_type :: string
  msg_text :: string

text \<open>The component's \<open>useState\<close> cells.\<close>

record mark_attendance_state =
  employeeId :: string
  manualEmployeeId :: string
  location :: "latlng option"
  locationCheck :: "range_check option"
  loading :: bool
  message :: "message option"
  showScanner :: bool
  showManualEntry :: bool
  qrScanned :: bool
  todayAttendance :: "attendance_row option"
  checkingAttendance :: bool

text \<open>The source's \<open>method: "qr" | "manual"\<close>.\<close>

datatype mark_method = qr | manual

fun method_string :: "mark_method \<Rightarrow> string" where
  "method_string qr = ''qr''"
| "method_string manual = ''manual''"

text \<open>\<open>employee?.location === 'in-office' && OFFICE_CONFIG.enforceLocationCheck\<close>\<close>

definition in_office_enforced :: "employee_row option \<Rightarrow> bool" where
  "in_office_enforced employee =
     ((case employee of None \<Rightarrow> False | Some e \<Rightarrow> location_flag e = Some ''in-office'')
      \<and> enforceLocationCheck OFFICE_CONFIG)"

text \<open>
  The success callback of \<open>navigator.geolocation.getCurrentPosition\<close> in the component's
  effect: it stores the position and the range check.
\<close>

definition onPosition ::
  "employee_row option \<Rightarrow> real \<Rightarrow> real \<Rightarrow> mark_attendance_state \<Rightarrow> mark_attendance_state" where
  "onPosition employee latitude longitude st =
     (let userLocation = \<lparr>lat = latitude, lng = longitude\<rparr>;
          st = st\<lparr>location := Some userLocation\<rparr>
      in if in_office_enforced employee
         then (let rangeCheck = isWithinOfficeRange (lat userLocation) (lng userLocation)
               in st\<lparr>locationCheck := Some rangeCheck\<rparr>)
         else st\<lparr>locationCheck := Some \<lparr>isWithinRange = True, distance = 0\<rparr>\<rparr>)"

text \<open>A JavaScript string is truthy when it is neither \<open>null\<close> nor empty.\<close>

definition truthy :: "string option \<Rightarrow> bool" where
  "truthy s = (case s of None \<Rightarrow> False | Some v \<Rightarrow> v \<noteq> [])"

text \<open>The \<open>catch\<close> block of \<open>handleMarkAttendance\<close>, followed by its \<open>finally\<close>.\<close>

definition catch_finally ::
  "mark_attendance_state \<Rightarrow> effect list \<Rightarrow> mark_attendance_state \<times> effect list" where
  "catch_finally st issued =
     (st\<lparr>message := Some \<lparr>msg_type = ''error'',
                             msg_text = ''Failed to mark attendance. Please try again.''\<rparr>,
         loading := False\<rparr>,
      issued @ [ConsoleError ''Error marking attendance:'',
              Toast \<lparr>title = ''Error'', description = ''Failed to mark attendance'',
                     variant = Some ''destructive'', duration = None\<rparr>])"

text \<open>
  The \<open>try\<close> block of \<open>handleMarkAttendance\<close> with its \<open>catch\<close> and \<open>finally\<close>: check-out when
  today's row exists, check-in otherwise. The check mark U+2713 that starts the success
  texts of the source is outside the modelled characters and left out.
\<close>

definition try_mark ::
  "env \<Rightarrow> mark_method \<Rightarrow> string \<Rightarrow> latlng \<Rightarrow> mark_attendance_state
     \<Rightarrow> mark_attendance_state \<times> effect list" where
  "try_mark env method idToUse loc st =
     (case todayAttendance st of
        Some att \<Rightarrow>
          if \<not> truthy (check_out_time att) then
            (let call = Update ''attendance''
                          [(''check_out_time'', JStr (localDateTime env)),
                           (''check_out_location_lat'', JNum (lat loc)),
                           (''check_out_location_lng'', JNum (lng loc))]
                          ''id'' (JStr (att_id att))
             in case error (backend env call) of
                  Some updateError \<Rightarrow> catch_finally st [Call call]
                | None \<Rightarrow>
                    (st\<lparr>message := Some \<lparr>msg_type = ''success'',
                                           msg_text = ''Check-out marked successfully!''\<rparr>,
                        todayAttendance := Some (att\<lparr>check_out_time := Some (localDateTime env)\<rparr>),
                        qrScanned := False,
                        loading := False\<rparr>,
                     [Call call,
                      Toast \<lparr>title = ''Success'', description = ''Check-out time recorded!'',
                             variant = None, duration = None\<rparr>]))
          else
            (st\<lparr>message := Some \<lparr>msg_type = ''error'',
                                   msg_text = ''You have already checked out for today''\<rparr>,
                loading := False\<rparr>,
             [Toast \<lparr>title = ''Already Checked Out'',
                     description = ''You have already completed attendance for today'',
                     variant = Some ''destructive'', duration = None\<rparr>])
      | None \<Rightarrow>
          (let call = Insert ''attendance''
                        [(''employee_id'', JStr idToUse),
                         (''date'', JStr (localDate env)),
                         (''check_in_time'', JStr (localDateTime env)),
                         (''location_lat'', JNum (lat loc)),
                         (''location_lng'', JNum (lng loc)),
                         (''status'', JStr ''present''),
                         (''method'', JStr (method_string method))]
           in case error (backend env call) of
                Some insertError \<Rightarrow> catch_finally st [Call call]
              | None \<Rightarrow>
                  (st\<lparr>message := Some \<lparr>msg_type = ''success'',
                                         msg_text = ''Check-in marked successfully!''\<rparr>,
                      todayAttendance := data (backend env call),
                      qrScanned := False,
                      loading := False\<rparr>,
                   [Call call,
                    Toast \<lparr>title = ''Success'', description = ''Attendance check-in successful!'',
                           variant = None, duration = Some 5000\<rparr>])))"

text \<open>The ID a call of \<open>handleMarkAttendance\<close> submits: the source's \<open>idToUse\<close>.\<close>

definition submitted_id :: "mark_method \<Rightarrow> mark_attendance_state \<Rightarrow> string" where
  "submitted_id method st = (if method = qr then employeeId st else manualEmployeeId st)"

text \<open>
  The negation of the second guard of \<open>handleMarkAttendance\<close>,
  \<open>employee && idToUse.trim() !== employee.employee_id\<close>: nobody is signed in, or the
  trimmed ID is the signed-in employee's.
\<close>

definition own_id :: "employee_row option \<Rightarrow> string \<Rightarrow> bool" where
  "own_id employee i = (case employee of None \<Rightarrow> True | Some e \<Rightarrow> trim i = employee_id e)"

text \<open>
  \<open>handleMarkAttendance\<close>: the four guards in the source's order (empty ID, foreign ID,
  missing location, in-office employee out of range), then the \<open>try\<close> block. \<open>employee\<close> is
  the value of \<open>useAuth()\<close>.
\<close>

definition handleMarkAttendance ::
  "env \<Rightarrow> employee_row option \<Rightarrow> mark_method \<Rightarrow> mark_attendance_state
     \<Rightarrow> mark_attendance_state \<times> effect list" where
  "handleMarkAttendance env employee method st =
     (let idToUse = submitted_id method st in
      if trim idToUse = [] then
        (st\<lparr>message := Some \<lparr>msg_type = ''error'', msg_text = ''Employee ID not found''\<rparr>\<rparr>,
         [Toast \<lparr>title = ''Error'', description = ''Employee ID is required'',
                 variant = Some ''destructive'', duration = None\<rparr>])
      else if (case employee of None \<Rightarrow> False | Some e \<Rightarrow> trim idToUse \<noteq> employee_id e) then
        (st\<lparr>message := Some \<lparr>msg_type = ''error'',
                               msg_text = ''You can only mark attendance for your own Employee ID''\<rparr>\<rparr>,
         [Toast \<lparr>title = ''Access Denied'',
                 description = ''You cannot mark attendance for other employees'',
                 variant = Some ''destructive'', duration = Some 5000\<rparr>])
      else case location st of
        None \<Rightarrow>
          (st\<lparr>message := Some \<lparr>msg_type = ''error'',
                                 msg_text = ''Location not available. Please enable location services.''\<rparr>\<rparr>,
           [])
      | Some loc \<Rightarrow>
          if in_office_enforced employee \<and>
             (case locationCheck st of None \<Rightarrow> True | Some lc \<Rightarrow> \<not> isWithinRange lc)
          then
            (let distance = (case locationCheck st of None \<Rightarrow> 0 | Some lc \<Rightarrow> distance lc) in
             (st\<lparr>message := Some \<lparr>msg_type = ''error'',
                 msg_text = ''You must be within '' @ toString env (allowedRadius OFFICE_CONFIG) @
                            ''m of the office to mark attendance. You are '' @
                            toString env distance @ ''m away.''\<rparr>\<rparr>,
              [Toast \<lparr>title = ''Location Check Failed'',
                      description = ''You are too far from the office ('' @ toString env distance @
                                    ''m away). Please move closer to mark attendance.'',
                      variant = Some ''destructive'', duration = Some 6000\<rparr>]))
          else try_mark env method idToUse loc (st\<lparr>loading := True, message := None\<rparr>))"

section \<open>Leave request review (src/components/admin/AdminLeaveRequests.tsx)\<close>

text \<open>
  What a mutation function throws: its own \<open>new Error(message)\<close>, or the error object the
  backend client returned.
\<close>

datatype thrown = Error string | PostgrestError string

fun error_message :: "thrown \<Rightarrow> string" where
  "error_message (Error m) = m"
| "error_message (PostgrestError m) = m"

text \<open>The \<open>useState\<close> cells of the screen; \<open>'r\<close> is the type of a listed leave request.\<close>

record 'r leave_requests_state =
  searchTerm :: string
  statusFilter :: string
  selectedRequest :: "'r option"
  reviewComment :: string

text \<open>\<open>approveMutation.mutationFn\<close>; \<open>comment || null\<close> is \<open>null\<close> for the empty comment.\<close>

definition approveMutation_mutationFn ::
  "env \<Rightarrow> employee_row option \<Rightarrow> string \<Rightarrow> string \<Rightarrow> (thrown + unit) \<times> effect list" where
  "approveMutation_mutationFn env employee requestId comment =
     (let call = Update ''leave_requests''
                   [(''status'', JStr ''approved''),
                    (''approved_by'',
                       case employee of None \<Rightarrow> JUndefined | Some e \<Rightarrow> JStr (employee_id e)),
                    (''approved_at'', JStr (localDateTime env)),
                    (''rejection_reason'', if comment = [] then JNull else JStr comment)]
                   ''id'' (JStr requestId)
      in case error (backend env call) of
           Some e \<Rightarrow> (Inl (PostgrestError e), [Call call])
         | None \<Rightarrow> (Inr (), [Call call]))"

text \<open>\<open>rejectMutation.mutationFn\<close>: the reason is checked before anything is sent.\<close>

definition rejectMutation_mutationFn ::
  "env \<Rightarrow> employee_row option \<Rightarrow> string \<Rightarrow> string \<Rightarrow> (thrown + unit) \<times> effect list" where
  "rejectMutation_mutationFn env employee requestId reason =
     (if trim reason = [] then (Inl (Error ''Rejection reason is required''), [])
      else
        (let call = Update ''leave_requests''
                      [(''status'', JStr ''rejected''),
                       (''approved_by'',
                          case employee of None \<Rightarrow> JUndefined | Some e \<Rightarrow> JStr (employee_id e)),
                       (''approved_at'', JStr (localDateTime env)),
                       (''rejection_reason'', JStr reason)]
                      ''id'' (JStr requestId)
         in case error (backend env call) of
              Some e \<Rightarrow> (Inl (PostgrestError e), [Call call])
            | None \<Rightarrow> (Inr (), [Call call])))"

text \<open>
  \<open>approveMutation.mutate\<close> and \<open>rejectMutation.mutate\<close>: the mutation function, then
  \<open>onSuccess\<close> or \<open>onError\<close>.
\<close>

definition approveMutation_mutate ::
  "env \<Rightarrow> employee_row option \<Rightarrow> string \<Rightarrow> string \<Rightarrow> 'r leave_requests_state
     \<Rightarrow> 'r leave_requests_state \<times> effect list" where
  "approveMutation_mutate env employee requestId comment st =
     (case approveMutation_mutationFn env employee requestId comment of
        (Inr _, es) \<Rightarrow>
          (st\<lparr>reviewComment := [], selectedRequest := None\<rparr>,
           es @ [Invalidate ''admin-leave-requests'',
                 Toast \<lparr>title = ''Leave Approved'',
                        description = ''The leave request has been approved successfully.'',
                        variant = None, duration = None\<rparr>])
      | (Inl err, es) \<Rightarrow>
          (st,
           es @ [ConsoleError ''Error approving leave:'',
                 Toast \<lparr>title = ''Error'', description = ''Failed to approve leave request'',
                        variant = Some ''destructive'', duration = None\<rparr>]))"

definition rejectMutation_mutate ::
  "env \<Rightarrow> employee_row option \<Rightarrow> string \<Rightarrow> string \<Rightarrow> 'r leave_requests_state
     \<Rightarrow> 'r leave_requests_state \<times> effect list" where
  "rejectMutation_mutate env employee requestId reason st =
     (case rejectMutation_mutationFn env employee requestId reason of
        (Inr _, es) \<Rightarrow>
          (st\<lparr>reviewComment := [], selectedRequest := None\<rparr>,
           es @ [Invalidate ''admin-leave-requests'',
                 Toast \<lparr>title = ''Leave Rejected'',
                        description = ''The leave request has been rejected.'',
                        variant = Some ''destructive'', duration = None\<rparr>])
      | (Inl err, es) \<Rightarrow>
          (st,
           es @ [ConsoleError ''Error rejecting leave:'',
                 Toast \<lparr>title = ''Error'',
                        description = (if error_message err = [] then ''Failed to reject leave request''
                                       else error_message err),
                        variant = Some ''destructive'', duration = None\<rparr>]))"

definition handleApproveRequest ::
  "env \<Rightarrow> employee_row option \<Rightarrow> string \<Rightarrow> 'r leave_requests_state
     \<Rightarrow> 'r leave_requests_state \<times> effect list" where
  "handleApproveRequest env employee requestId st =
     approveMutation_mutate env employee requestId (reviewComment st) st"

definition handleRejectRequest ::
  "env \<Rightarrow> employee_row option \<Rightarrow> string \<Rightarrow> 'r leave_requests_state
     \<Rightarrow> 'r leave_requests_state \<times> effect list" where
  "handleRejectRequest env employee requestId st =
     (if trim (reviewComment st) = [] then
        (st, [Toast \<lparr>title = ''Comment Required'',
                     description = ''Please provide a reason for rejection.'',
                     variant = Some ''destructive'', duration = None\<rparr>])
      else rejectMutation_mutate env employee requestId (reviewComment st) st)"

section \<open>Declared task status values\<close>

text \<open>
  The string-literal union types declared for a task's \<open>status\<close>, each as the list of its
  members in the order of the declaration: the \<open>tasks\<close> row type of src/lib/supabase.ts, the
  \<open>Task\<close> interface of src/components/admin/AdminTasks.tsx, the \<open>Task\<close> interface of the other
  copy of the \<open>AdminTasks\<close> screen (src/unnamed/part_002), and the \<open>Task\<close> interface of
  src/components/hr/EmployeeTasks.tsx.
\<close>

definition supabase_tasks_status :: "string list" where
  "supabase_tasks_status = [''pending'', ''in_progress'', ''completed'', ''overdue'']"

definition AdminTasks_Task_status :: "string list" where
  "AdminTasks_Task_status =
     [''not_started'', ''in_progress'', ''completed'', ''shelved'', ''accepted'', ''rejected'']"

definition AdminTasks_other_Task_status :: "string list" where
  "AdminTasks_other_Task_status = [''pending'', ''in_progress'', ''completed'', ''overdue'']"

definition EmployeeTasks_Task_status :: "string list" where
  "EmployeeTasks_Task_status = [''pending'', ''completed'', ''accepted'', ''rejected'']"

section \<open>Sample inputs\<close>

text \<open>
  Concrete inputs for the worked instances below: a backend that accepts every call, a
  remote employee \<open>E001\<close>, an in-office administrator, the attendance screen as it is
  mounted for \<open>E001\<close> before the device has reported a position, and the leave review
  screen with a request selected and a comment typed.
\<close>

definition sample_env :: env where
  "sample_env =
     \<lparr>backend = (\<lambda>c. \<lparr>data = None, error = None\<rparr>),
      localDateTime = ''2025-01-15T09:00:00.000Z'',
      localDate = ''2025-01-15'',
      toString = (\<lambda>x. ''?'')\<rparr>"

definition sample_employee :: employee_row where
  "sample_employee = \<lparr>employee_id = ''E001'', location_flag = Some ''remote''\<rparr>"

definition sample_admin :: employee_row where
  "sample_admin = \<lparr>employee_id = ''A001'', location_flag = Some ''in-office''\<rparr>"

definition sample_state :: mark_attendance_state where
  "sample_state =
     \<lparr>employeeId = ''E001'',
      manualEmployeeId = [],
      location = None,
      locationCheck = None,
      loading = False,
      message = None,
      showScanner = False,
      showManualEntry = False,
      qrScanned = False,
      todayAttendance = None,
      checkingAttendance = False\<rparr>"

definition sample_review :: "string leave_requests_state" where
  "sample_review =
     \<lparr>searchTerm = [], statusFilter = ''all'', selectedRequest = Some ''r1'',
      reviewComment = ''no cover''\<rparr>"

section \<open>Properties of the proximity check\<close>

subsection \<open>Bounds on \<open>pi\<close> from Machin's formula\<close>






subsection \<open>The distance computation\<close>

lemma calculateDistance_a:
  "calculateDistance lat1 lng1 lat2 lng2 =
     6371000 * (2 * atan2 (sqrt (haversine_a lat1 lng1 lat2 lng2))
                          (sqrt (1 - haversine_a lat1 lng1 lat2 lng2)))"
  by (simp add: calculateDistance_def haversine_a_def Let_def power2_eq_square mult.assoc)

lemma atan2_sin_cos:
  assumes "0 \<le> t" "t \<le> pi / 2"
  shows "atan2 (sin t) (cos t) = t"
proof (cases "t = pi / 2")
  case True
  show ?thesis unfolding True by (simp add: atan2_def)
next
  case False
  with assms have lt: "t < pi / 2" by simp
  then have "0 < cos t" using assms by (intro cos_gt_zero_pi) simp_all
  moreover have "arctan (sin t / cos t) = t"
    using arctan_tan[of t] assms lt by (simp add: tan_def)
  ultimately show ?thesis by (simp add: atan2_def)
qed







lemma sin_half_swap:
  "(sin ((x - y) * pi / 180 / 2))\<^sup>2 = (sin ((y - x) * pi / 180 / 2))\<^sup>2" for x y :: real
proof -
  have eq: "(x - y) * pi / 180 / 2 = - ((y - x) * pi / 180 / 2)" by (simp add: field_simps)
  show ?thesis unfolding eq sin_minus by simp
qed

lemma haversine_a_sym: "haversine_a lat1 lng1 lat2 lng2 = haversine_a lat2 lng2 lat1 lng1"
  unfolding haversine_a_def sin_half_swap[of lat2 lat1] sin_half_swap[of lng2 lng1]
  by (simp add: mult.commute)

lemma calculateDistance_same_lng:
  assumes "\<bar>lat2 - lat1\<bar> \<le> 180"
  shows "calculateDistance lat1 lng0 lat2 lng0 = 6371000 * (\<bar>lat2 - lat1\<bar> * pi / 180)"
proof -
  let ?t = "\<bar>lat2 - lat1\<bar> * pi / 180 / 2"
  have t0: "0 \<le> ?t" by simp
  have "\<bar>lat2 - lat1\<bar> * pi \<le> 180 * pi" using assms by (intro mult_right_mono) simp_all
  then have t1: "?t \<le> pi / 2" by simp
  have a: "haversine_a lat1 lng0 lat2 lng0 = (sin ?t)\<^sup>2"
  proof (cases "lat1 \<le> lat2")
    case True
    then show ?thesis by (simp add: haversine_a_def)
  next
    case False
    then have "\<bar>lat2 - lat1\<bar> = lat1 - lat2" by simp
    then show ?thesis
      using sin_half_swap[of lat2 lat1] by (simp add: haversine_a_def)
  qed
  have s: "sqrt ((sin ?t)\<^sup>2) = sin ?t"
    using t0 t1 pi_gt_zero by (intro real_sqrt_unique) (simp_all add: sin_ge_zero)
  have "1 - (sin ?t)\<^sup>2 = (cos ?t)\<^sup>2" using sin_cos_squared_add[of ?t] by linarith
  moreover have "- (pi / 2) \<le> ?t" using t0 pi_ge_zero by linarith
  then have "0 \<le> cos ?t" using t1 by (intro cos_ge_zero)
  ultimately have c: "sqrt (1 - (sin ?t)\<^sup>2) = cos ?t" by simp
  show ?thesis
    unfolding calculateDistance_a a s c atan2_sin_cos[OF t0 t1] by simp
qed

lemma calculateDistance_same: "calculateDistance lat0 lng0 lat0 lng0 = 0"
  by (simp add: calculateDistance_def atan2_def)







text \<open>
  Claim C2. For the configured office coordinate and allowed radius, every point whose
  computed distance from the office is exactly the allowed radius is classified as within
  range: \<open>isWithinRange\<close> is the boundary-inclusive comparison \<open>distance \<le> allowedRadius\<close>.
\<close>

theorem isWithinOfficeRange_boundary_inclusive:
  "(calculateDistance employeeLat employeeLng
       (lat (coordinates OFFICE_CONFIG)) (lng (coordinates OFFICE_CONFIG))
      = allowedRadius OFFICE_CONFIG
    \<longrightarrow> isWithinRange (isWithinOfficeRange employeeLat employeeLng))
   \<and> isWithinRange (isWithinOfficeRange employeeLat employeeLng) =
      (calculateDistance employeeLat employeeLng
         (lat (coordinates OFFICE_CONFIG)) (lng (coordinates OFFICE_CONFIG))
       \<le> allowedRadius OFFICE_CONFIG)"
  by (simp add: isWithinOfficeRange_def Let_def)

text \<open>
  A point at distance exactly 100 m exists: \<open>18 / (6371 * pi)\<close> degrees of latitude north of
  the office, on the office's meridian.
\<close>

theorem isWithinOfficeRange_boundary_inclusive_witness:
  "calculateDistance (11.603722 + 18 / (6371 * pi)) 76.209250
       (lat (coordinates OFFICE_CONFIG)) (lng (coordinates OFFICE_CONFIG))
     = allowedRadius OFFICE_CONFIG
   \<and> isWithinRange (isWithinOfficeRange (11.603722 + 18 / (6371 * pi)) 76.209250)"
proof -
  have pos: "0 < 18 / (6371 * pi)" by simp
  have "18 \<le> 180 * (6371 * pi)" using pi_ge_two by simp
  then have le: "18 / (6371 * pi) \<le> 180" by (simp add: field_simps)
  have "calculateDistance (11.603722 + 18 / (6371 * pi)) 76.209250 11.603722 76.209250 =
        6371000 * (\<bar>11.603722 - (11.603722 + 18 / (6371 * pi))\<bar> * pi / 180)"
    by (rule calculateDistance_same_lng) (use pos le in simp)
  also have "\<dots> = 100" by simp
  finally have h: "calculateDistance (11.603722 + 18 / (6371 * pi)) 76.209250
       (lat (coordinates OFFICE_CONFIG)) (lng (coordinates OFFICE_CONFIG))
     = allowedRadius OFFICE_CONFIG"
    by (simp add: OFFICE_CONFIG_def)
  show ?thesis
    using h isWithinOfficeRange_boundary_inclusive
      [of "11.603722 + 18 / (6371 * pi)" "76.209250"] by blast
qed

text \<open>
  Claim C3. For every coordinate pair, \<open>calculateDistance\<close> of the pair with itself is 0; the
  configured radius is positive, and an employee exactly at the office coordinates gets
  \<open>distance = 0\<close> and \<open>isWithinRange = true\<close> from \<open>isWithinOfficeRange\<close>.
\<close>

theorem calculateDistance_coincident:
  "calculateDistance lat0 lng0 lat0 lng0 = 0
   \<and> 0 < allowedRadius OFFICE_CONFIG
   \<and> isWithinOfficeRange (lat (coordinates OFFICE_CONFIG)) (lng (coordinates OFFICE_CONFIG)) =
       \<lparr>isWithinRange = True, distance = 0\<rparr>"
  by (simp add: calculateDistance_same isWithinOfficeRange_def Let_def Math_round_def)
     (simp add: OFFICE_CONFIG_def)

text \<open>
  Claim C4. \<open>calculateDistance\<close> is symmetric in its two points.
\<close>

theorem calculateDistance_symmetric:
  "calculateDistance lat1 lng1 lat2 lng2 = calculateDistance lat2 lng2 lat1 lng1"
  unfolding calculateDistance_a haversine_a_sym[of lat1 lng1 lat2 lng2] ..

section \<open>Properties of the attendance screen\<close>

subsection \<open>Trimming\<close>

lemma all_dropWhile_iff: "(\<forall>x\<in>set (dropWhile P xs). P x) \<longleftrightarrow> (\<forall>x\<in>set xs. P x)"
  by (induction xs) simp_all

lemma trim_empty_iff: "trim s = [] \<longleftrightarrow> (\<forall>c\<in>set s. is_whitespace c)"
  by (simp add: trim_def dropWhile_eq_Nil_conv all_dropWhile_iff)

subsection \<open>The branches of \<open>handleMarkAttendance\<close>\<close>

lemma handleMarkAttendance_empty_id:
  assumes "trim (submitted_id m st) = []"
  shows "handleMarkAttendance env employee m st =
        (st\<lparr>message := Some \<lparr>msg_type = ''error'', msg_text = ''Employee ID not found''\<rparr>\<rparr>,
         [Toast \<lparr>title = ''Error'', description = ''Employee ID is required'',
                 variant = Some ''destructive'', duration = None\<rparr>])"
  unfolding handleMarkAttendance_def Let_def using assms by (simp only: if_True simp_thms)

lemma handleMarkAttendance_foreign_id:
  assumes "trim (submitted_id m st) \<noteq> []"
    and "trim (submitted_id m st) \<noteq> employee_id e"
  shows "handleMarkAttendance env (Some e) m st =
        (st\<lparr>message := Some \<lparr>msg_type = ''error'',
                               msg_text = ''You can only mark attendance for your own Employee ID''\<rparr>\<rparr>,
         [Toast \<lparr>title = ''Access Denied'',
                 description = ''You cannot mark attendance for other employees'',
                 variant = Some ''destructive'', duration = Some 5000\<rparr>])"
  unfolding handleMarkAttendance_def Let_def using assms
  by (simp only: if_True if_False option.case simp_thms)

lemma own_id_guard:
  "(case employee of None \<Rightarrow> False | Some e \<Rightarrow> trim i \<noteq> employee_id e) = (\<not> own_id employee i)"
  by (simp add: own_id_def split: option.splits)

lemma handleMarkAttendance_no_location:
  assumes "trim (submitted_id m st) \<noteq> []"
    and "own_id employee (submitted_id m st)"
    and "location st = None"
  shows "handleMarkAttendance env employee m st =
          (st\<lparr>message := Some \<lparr>msg_type = ''error'',
                                 msg_text = ''Location not available. Please enable location services.''\<rparr>\<rparr>,
           [])"
  unfolding handleMarkAttendance_def Let_def own_id_guard using assms
  by (simp only: if_True if_False option.case simp_thms)

lemma handleMarkAttendance_out_of_range:
  assumes "trim (submitted_id m st) \<noteq> []"
    and "own_id employee (submitted_id m st)"
    and "location st = Some loc"
    and "in_office_enforced employee"
    and "locationCheck st = Some lc"
    and "\<not> isWithinRange lc"
  shows "handleMarkAttendance env employee m st =
          (st\<lparr>message := Some \<lparr>msg_type = ''error'',
               msg_text = ''You must be within '' @ toString env (allowedRadius OFFICE_CONFIG) @
                          ''m of the office to mark attendance. You are '' @
                          toString env (distance lc) @ ''m away.''\<rparr>\<rparr>,
           [Toast \<lparr>title = ''Location Check Failed'',
                   description = ''You are too far from the office ('' @ toString env (distance lc) @
                                 ''m away). Please move closer to mark attendance.'',
                   variant = Some ''destructive'', duration = Some 6000\<rparr>])"
  unfolding handleMarkAttendance_def Let_def own_id_guard using assms
  by (simp only: if_True if_False option.case simp_thms)

lemma handleMarkAttendance_pass:
  assumes "trim (submitted_id m st) \<noteq> []"
    and "own_id employee (submitted_id m st)"
    and "location st = Some loc"
    and "\<not> (in_office_enforced employee \<and>
            (case locationCheck st of None \<Rightarrow> True | Some lc \<Rightarrow> \<not> isWithinRange lc))"
  shows "handleMarkAttendance env employee m st =
          try_mark env m (submitted_id m st) loc (st\<lparr>loading := True, message := None\<rparr>)"
  unfolding handleMarkAttendance_def Let_def own_id_guard using assms
  by (simp only: if_True if_False option.case simp_thms)

lemma try_mark_no_location_toast:
  "\<forall>t\<in>set (toasts_of (snd (try_mark env m i loc st))). title t \<noteq> ''Location Check Failed''"
  by (simp add: try_mark_def catch_finally_def Let_def split: option.splits)

lemma try_mark_locationCheck:
  "try_mark env m i loc (st\<lparr>locationCheck := lc\<rparr>) =
     (fst (try_mark env m i loc st)\<lparr>locationCheck := lc\<rparr>, snd (try_mark env m i loc st))"
  by (simp add: try_mark_def catch_finally_def Let_def split: option.splits)

lemma submitted_id_locationCheck [simp]:
  "submitted_id m (st\<lparr>locationCheck := lc\<rparr>) = submitted_id m st"
  by (simp add: submitted_id_def)

subsection \<open>Claims about \<open>handleMarkAttendance\<close>\<close>

text \<open>
  Claim C5. For every employee whose location flag is not \<open>in-office\<close>, the geolocation
  callback stores the range check \<open>{isWithinRange: true, distance: 0}\<close> whatever the device
  coordinates are, and \<open>handleMarkAttendance\<close> never blocks the employee on distance grounds:
  it raises no "Location Check Failed" toast, and what it does is independent of the stored
  range check.
\<close>

theorem remote_employee_never_range_checked:
  assumes "location_flag e \<noteq> Some ''in-office''"
  shows "locationCheck (onPosition (Some e) latitude longitude st) =
           Some \<lparr>isWithinRange = True, distance = 0\<rparr>
       \<and> (\<forall>t\<in>set (toasts_of (snd (handleMarkAttendance env (Some e) m st))).
             title t \<noteq> ''Location Check Failed'')
       \<and> handleMarkAttendance env (Some e) m (st\<lparr>locationCheck := lc\<rparr>) =
           (fst (handleMarkAttendance env (Some e) m st)\<lparr>locationCheck := lc\<rparr>,
            snd (handleMarkAttendance env (Some e) m st))"
proof -
  let ?st' = "st\<lparr>locationCheck := lc\<rparr>"
  have n: "\<not> in_office_enforced (Some e)" using assms by (simp add: in_office_enforced_def)
  then have n': "\<not> (in_office_enforced (Some e) \<and> P)" for P by simp
  have 1: "locationCheck (onPosition (Some e) latitude longitude st) =
           Some \<lparr>isWithinRange = True, distance = 0\<rparr>"
    using n by (simp add: onPosition_def Let_def)
  have 23: "(\<forall>t\<in>set (toasts_of (snd (handleMarkAttendance env (Some e) m st))).
             title t \<noteq> ''Location Check Failed'')
       \<and> handleMarkAttendance env (Some e) m ?st' =
           (fst (handleMarkAttendance env (Some e) m st)\<lparr>locationCheck := lc\<rparr>,
            snd (handleMarkAttendance env (Some e) m st))"
  proof (cases "trim (submitted_id m st) = []")
    case True
    show ?thesis
      by (simp add: handleMarkAttendance_empty_id[OF True]
          handleMarkAttendance_empty_id[of m ?st'] True)
  next
    case ne: False
    show ?thesis
    proof (cases "trim (submitted_id m st) = employee_id e")
      case False
      show ?thesis
        by (simp add: handleMarkAttendance_foreign_id[OF ne False]
            handleMarkAttendance_foreign_id[of m ?st'] ne False)
    next
      case True
      then have own: "own_id (Some e) (submitted_id m st)" by (simp add: own_id_def)
      show ?thesis
      proof (cases "location st")
        case None
        show ?thesis
          by (simp add: handleMarkAttendance_no_location[OF ne own None]
              handleMarkAttendance_no_location[of m ?st'] ne own None)
      next
        case (Some loc)
        have a: "handleMarkAttendance env (Some e) m st =
            try_mark env m (submitted_id m st) loc (st\<lparr>loading := True, message := None\<rparr>)"
          by (rule handleMarkAttendance_pass[OF ne own Some n'])
        have "handleMarkAttendance env (Some e) m ?st' =
            try_mark env m (submitted_id m ?st') loc (?st'\<lparr>loading := True, message := None\<rparr>)"
          by (rule handleMarkAttendance_pass) (simp_all add: ne own Some n)
        also have "?st'\<lparr>loading := True, message := None\<rparr> =
            (st\<lparr>loading := True, message := None\<rparr>)\<lparr>locationCheck := lc\<rparr>" by simp
        finally have b: "handleMarkAttendance env (Some e) m ?st' =
            (fst (handleMarkAttendance env (Some e) m st)\<lparr>locationCheck := lc\<rparr>,
             snd (handleMarkAttendance env (Some e) m st))"
          by (simp only: try_mark_locationCheck a submitted_id_locationCheck)
        show ?thesis using try_mark_no_location_toast b unfolding a by blast
      qed
    qed
  qed
  from 1 23 show ?thesis by (intro conjI) simp_all
qed

text \<open>
  The remote employee \<open>E001\<close>, whose device reports a position far from the office, checks
  in.
\<close>

theorem remote_employee_never_range_checked_witness:
  "location_flag sample_employee \<noteq> Some ''in-office''
   \<and> locationCheck (onPosition (Some sample_employee) 12 77 sample_state) =
       Some \<lparr>isWithinRange = True, distance = 0\<rparr>
   \<and> calls_of (snd (handleMarkAttendance sample_env (Some sample_employee) qr
         (onPosition (Some sample_employee) 12 77 sample_state))) =
       [Insert ''attendance''
          [(''employee_id'', JStr ''E001''),
           (''date'', JStr ''2025-01-15''),
           (''check_in_time'', JStr ''2025-01-15T09:00:00.000Z''),
           (''location_lat'', JNum 12),
           (''location_lng'', JNum 77),
           (''status'', JStr ''present''),
           (''method'', JStr ''qr'')]]
   \<and> toasts_of (snd (handleMarkAttendance sample_env (Some sample_employee) qr
         (onPosition (Some sample_employee) 12 77 sample_state))) =
       [\<lparr>title = ''Success'', description = ''Attendance check-in successful!'',
         variant = None, duration = Some 5000\<rparr>]"
proof -
  have h: "location_flag sample_employee \<noteq> Some ''in-office''"
    by (simp add: sample_employee_def)
  note t = remote_employee_never_range_checked
    [OF h, of 12 77 sample_state sample_env qr None]
  have ne: "\<not> in_office_enforced (Some sample_employee)"
    using h by (simp add: in_office_enforced_def)
  have st: "onPosition (Some sample_employee) 12 77 sample_state =
      sample_state\<lparr>location := Some \<lparr>lat = 12, lng = 77\<rparr>,
                   locationCheck := Some \<lparr>isWithinRange = True, distance = 0\<rparr>\<rparr>"
    using ne by (simp add: onPosition_def Let_def)
  have tr: "trim ''E001'' = ''E001''" by (simp add: trim_def is_whitespace_def)
  have run: "snd (handleMarkAttendance sample_env (Some sample_employee) qr
         (onPosition (Some sample_employee) 12 77 sample_state)) =
       [Call (Insert ''attendance''
          [(''employee_id'', JStr ''E001''),
           (''date'', JStr ''2025-01-15''),
           (''check_in_time'', JStr ''2025-01-15T09:00:00.000Z''),
           (''location_lat'', JNum 12),
           (''location_lng'', JNum 77),
           (''status'', JStr ''present''),
           (''method'', JStr ''qr'')]),
        Toast \<lparr>title = ''Success'', description = ''Attendance check-in successful!'',
         variant = None, duration = Some 5000\<rparr>]"
    unfolding st using ne
    by (simp add: handleMarkAttendance_def Let_def submitted_id_def sample_state_def
        sample_employee_def sample_env_def tr try_mark_def)
  from h t run show ?thesis by simp
qed

lemma trim_E001: "trim ''E001'' = ''E001''"
  by (simp add: trim_def is_whitespace_def)

text \<open>
  Claim C6. If the stored location is \<open>null\<close> when \<open>handleMarkAttendance\<close> runs, marking is
  blocked: an error message is set and no insert or update call is issued. When the
  submitted ID passes the two ID guards, the message is the one about location services and
  nothing else happens.
\<close>

theorem no_location_blocks_attendance:
  assumes "location st = None"
  shows "calls_of (snd (handleMarkAttendance env employee m st)) = []
       \<and> map_option msg_type (message (fst (handleMarkAttendance env employee m st))) =
           Some ''error''
       \<and> (trim (submitted_id m st) \<noteq> [] \<and> own_id employee (submitted_id m st) \<longrightarrow>
            handleMarkAttendance env employee m st =
              (st\<lparr>message := Some \<lparr>msg_type = ''error'',
                   msg_text = ''Location not available. Please enable location services.''\<rparr>\<rparr>,
               []))"
proof (cases "trim (submitted_id m st) = []")
  case True
  show ?thesis by (simp add: handleMarkAttendance_empty_id[OF True] True)
next
  case ne: False
  show ?thesis
  proof (cases "own_id employee (submitted_id m st)")
    case True
    show ?thesis by (simp add: handleMarkAttendance_no_location[OF ne True assms])
  next
    case False
    then obtain e where e: "employee = Some e" "trim (submitted_id m st) \<noteq> employee_id e"
      by (auto simp add: own_id_def split: option.splits)
    show ?thesis
      unfolding e(1) by (simp add: handleMarkAttendance_foreign_id[OF ne e(2)] False[unfolded e(1)])
  qed
qed

theorem no_location_blocks_attendance_witness:
  "location sample_state = None
   \<and> handleMarkAttendance sample_env (Some sample_employee) qr sample_state =
       (sample_state\<lparr>message := Some \<lparr>msg_type = ''error'',
          msg_text = ''Location not available. Please enable location services.''\<rparr>\<rparr>,
        [])"
proof -
  have h: "location sample_state = None" by (simp add: sample_state_def)
  have i: "submitted_id qr sample_state = ''E001''"
    by (simp add: submitted_id_def sample_state_def)
  have g: "trim (submitted_id qr sample_state) \<noteq> []
      \<and> own_id (Some sample_employee) (submitted_id qr sample_state)"
    unfolding i trim_E001 by (simp add: own_id_def trim_E001 sample_employee_def)
  show ?thesis
    using h g no_location_blocks_attendance
      [OF h, of sample_env "Some sample_employee" qr] by blast
qed

text \<open>
  Claim C10, as amended. For a signed-in employee, every submitted ID whose trimmed form
  differs from the employee's own \<open>employee_id\<close> is refused without any insert or update call:
  with the access-denied error when the trimmed ID is not empty, and with the
  "Employee ID not found" error when it is empty.
\<close>

theorem foreign_id_refused:
  assumes "trim (submitted_id m st) \<noteq> employee_id e"
  shows "calls_of (snd (handleMarkAttendance env (Some e) m st)) = []
       \<and> (trim (submitted_id m st) \<noteq> [] \<longrightarrow>
            handleMarkAttendance env (Some e) m st =
              (st\<lparr>message := Some \<lparr>msg_type = ''error'',
                     msg_text = ''You can only mark attendance for your own Employee ID''\<rparr>\<rparr>,
               [Toast \<lparr>title = ''Access Denied'',
                       description = ''You cannot mark attendance for other employees'',
                       variant = Some ''destructive'', duration = Some 5000\<rparr>]))
       \<and> (trim (submitted_id m st) = [] \<longrightarrow>
            handleMarkAttendance env (Some e) m st =
              (st\<lparr>message := Some \<lparr>msg_type = ''error'', msg_text = ''Employee ID not found''\<rparr>\<rparr>,
               [Toast \<lparr>title = ''Error'', description = ''Employee ID is required'',
                       variant = Some ''destructive'', duration = None\<rparr>]))"
proof (cases "trim (submitted_id m st) = []")
  case True
  show ?thesis by (simp add: handleMarkAttendance_empty_id[OF True] True)
next
  case False
  show ?thesis by (simp add: handleMarkAttendance_foreign_id[OF False assms] False)
qed

theorem foreign_id_refused_witness:
  "handleMarkAttendance sample_env (Some sample_employee) manual
       (sample_state\<lparr>manualEmployeeId := ''E002''\<rparr>) =
     (sample_state\<lparr>manualEmployeeId := ''E002'',
        message := Some \<lparr>msg_type = ''error'',
          msg_text = ''You can only mark attendance for your own Employee ID''\<rparr>\<rparr>,
      [Toast \<lparr>title = ''Access Denied'',
              description = ''You cannot mark attendance for other employees'',
              variant = Some ''destructive'', duration = Some 5000\<rparr>])
   \<and> handleMarkAttendance sample_env (Some sample_employee) manual sample_state =
     (sample_state\<lparr>message := Some \<lparr>msg_type = ''error'', msg_text = ''Employee ID not found''\<rparr>\<rparr>,
      [Toast \<lparr>title = ''Error'', description = ''Employee ID is required'',
              variant = Some ''destructive'', duration = None\<rparr>])"
proof -
  have t2: "trim ''E002'' = ''E002''" by (simp add: trim_def is_whitespace_def)
  have i2: "submitted_id manual (sample_state\<lparr>manualEmployeeId := ''E002''\<rparr>) = ''E002''"
    by (simp add: submitted_id_def)
  have i0: "submitted_id manual sample_state = []"
    by (simp add: submitted_id_def sample_state_def)
  have t0: "trim [] = []" by (simp add: trim_def)
  have a: "trim (submitted_id manual (sample_state\<lparr>manualEmployeeId := ''E002''\<rparr>))
             \<noteq> employee_id sample_employee"
    unfolding i2 t2 by (simp add: sample_employee_def)
  have b: "trim (submitted_id manual sample_state) \<noteq> employee_id sample_employee"
    unfolding i0 t0 by (simp add: sample_employee_def)
  have a': "trim (submitted_id manual (sample_state\<lparr>manualEmployeeId := ''E002''\<rparr>)) \<noteq> []"
    unfolding i2 t2 by simp
  have b': "trim (submitted_id manual sample_state) = []"
    unfolding i0 t0 by simp
  show ?thesis
    using foreign_id_refused[OF a, of sample_env] foreign_id_refused[OF b, of sample_env] a' b'
    by simp
qed

text \<open>
  Claim C10 as first stated compares the submitted ID itself. The source compares its
  trimmed form: the ID \<open>'' E001''\<close>, with a leading space, differs from \<open>''E001''\<close>, passes the
  guard and is sent in the insert call.
\<close>

theorem padded_own_id_counterexample:
  "submitted_id manual
       ((onPosition (Some sample_employee) 12 77 sample_state)\<lparr>manualEmployeeId := '' E001''\<rparr>)
     \<noteq> employee_id sample_employee
   \<and> calls_of (snd (handleMarkAttendance sample_env (Some sample_employee) manual
         ((onPosition (Some sample_employee) 12 77 sample_state)\<lparr>manualEmployeeId := '' E001''\<rparr>))) =
       [Insert ''attendance''
          [(''employee_id'', JStr '' E001''),
           (''date'', JStr ''2025-01-15''),
           (''check_in_time'', JStr ''2025-01-15T09:00:00.000Z''),
           (''location_lat'', JNum 12),
           (''location_lng'', JNum 77),
           (''status'', JStr ''present''),
           (''method'', JStr ''manual'')]]"
proof -
  let ?st = "(onPosition (Some sample_employee) 12 77 sample_state)\<lparr>manualEmployeeId := '' E001''\<rparr>"
  have ne: "\<not> in_office_enforced (Some sample_employee)"
    by (simp add: in_office_enforced_def sample_employee_def)
  have st: "?st = sample_state\<lparr>manualEmployeeId := '' E001'',
                   location := Some \<lparr>lat = 12, lng = 77\<rparr>,
                   locationCheck := Some \<lparr>isWithinRange = True, distance = 0\<rparr>\<rparr>"
    using ne by (simp add: onPosition_def Let_def)
  have i: "submitted_id manual ?st = '' E001''" unfolding st by (simp add: submitted_id_def)
  have tr: "trim '' E001'' = ''E001''" by (simp add: trim_def is_whitespace_def)
  have g1: "trim (submitted_id manual ?st) \<noteq> []" unfolding i tr by simp
  have g2: "own_id (Some sample_employee) (submitted_id manual ?st)"
    unfolding i by (simp add: own_id_def tr sample_employee_def)
  have g3: "location ?st = Some \<lparr>lat = 12, lng = 77\<rparr>" unfolding st by simp
  have g4: "\<not> (in_office_enforced (Some sample_employee) \<and>
            (case locationCheck ?st of None \<Rightarrow> True | Some lc \<Rightarrow> \<not> isWithinRange lc))"
    using ne by simp
  have run: "handleMarkAttendance sample_env (Some sample_employee) manual ?st =
      try_mark sample_env manual (submitted_id manual ?st) \<lparr>lat = 12, lng = 77\<rparr>
        (?st\<lparr>loading := True, message := None\<rparr>)"
    by (rule handleMarkAttendance_pass[OF g1 g2 g3 g4])
  have "calls_of (snd (handleMarkAttendance sample_env (Some sample_employee) manual ?st)) =
       [Insert ''attendance''
          [(''employee_id'', JStr '' E001''),
           (''date'', JStr ''2025-01-15''),
           (''check_in_time'', JStr ''2025-01-15T09:00:00.000Z''),
           (''location_lat'', JNum 12),
           (''location_lng'', JNum 77),
           (''status'', JStr ''present''),
           (''method'', JStr ''manual'')]]"
    unfolding run i unfolding st
    by (simp add: try_mark_def sample_state_def sample_env_def)
  moreover have "submitted_id manual ?st \<noteq> employee_id sample_employee"
    unfolding i by (simp add: sample_employee_def)
  ultimately show ?thesis by (intro conjI)
qed

section \<open>Properties of the leave request review\<close>

lemma calls_of_append: "calls_of (xs @ ys) = calls_of xs @ calls_of ys"
  by (induction xs rule: calls_of.induct) simp_all

lemma approveMutation_mutate_calls:
  "calls_of (snd (approveMutation_mutate env employee requestId comment st)) =
   calls_of (snd (approveMutation_mutationFn env employee requestId comment))"
  by (cases "approveMutation_mutationFn env employee requestId comment")
     (simp add: approveMutation_mutate_def calls_of_append split: sum.splits)

lemma rejectMutation_mutate_calls:
  "calls_of (snd (rejectMutation_mutate env employee requestId reason st)) =
   calls_of (snd (rejectMutation_mutationFn env employee requestId reason))"
  by (cases "rejectMutation_mutationFn env employee requestId reason")
     (simp add: rejectMutation_mutate_def calls_of_append split: sum.splits)

lemma approveMutation_mutationFn_calls:
  "calls_of (snd (approveMutation_mutationFn env employee requestId comment)) =
     [Update ''leave_requests''
        [(''status'', JStr ''approved''),
         (''approved_by'', case employee of None \<Rightarrow> JUndefined | Some e \<Rightarrow> JStr (employee_id e)),
         (''approved_at'', JStr (localDateTime env)),
         (''rejection_reason'', if comment = [] then JNull else JStr comment)]
        ''id'' (JStr requestId)]"
  by (simp add: approveMutation_mutationFn_def Let_def split: option.splits)

lemma rejectMutation_mutationFn_calls:
  assumes "trim reason \<noteq> []"
  shows "calls_of (snd (rejectMutation_mutationFn env employee requestId reason)) =
     [Update ''leave_requests''
        [(''status'', JStr ''rejected''),
         (''approved_by'', case employee of None \<Rightarrow> JUndefined | Some e \<Rightarrow> JStr (employee_id e)),
         (''approved_at'', JStr (localDateTime env)),
         (''rejection_reason'', JStr reason)]
        ''id'' (JStr requestId)]"
  using assms by (simp add: rejectMutation_mutationFn_def Let_def split: option.splits)

lemma rejectMutation_mutationFn_blank:
  assumes "trim reason = []"
  shows "rejectMutation_mutationFn env employee requestId reason =
           (Inl (Error ''Rejection reason is required''), [])"
  using assms by (simp add: rejectMutation_mutationFn_def)

text \<open>
  Claim C7. Approving or rejecting a leave request issues exactly one call, an update of
  the \<open>leave_requests\<close> row whose \<open>id\<close> is the request's: the approval sets \<open>status\<close> to
  \<open>approved\<close>, the rejection (made with a reason that is not blank) sets it to \<open>rejected\<close>, and
  both set \<open>approved_by\<close> to the acting administrator's \<open>employee_id\<close> and \<open>approved_at\<close> to
  the current time. This holds for the click handlers and for the mutation functions.
\<close>

theorem leave_decision_single_update:
  "calls_of (snd (handleApproveRequest env (Some admin) requestId st)) =
     [Update ''leave_requests''
        [(''status'', JStr ''approved''),
         (''approved_by'', JStr (employee_id admin)),
         (''approved_at'', JStr (localDateTime env)),
         (''rejection_reason'', if reviewComment st = [] then JNull else JStr (reviewComment st))]
        ''id'' (JStr requestId)]
   \<and> (trim (reviewComment st) \<noteq> [] \<longrightarrow>
        calls_of (snd (handleRejectRequest env (Some admin) requestId st)) =
          [Update ''leave_requests''
             [(''status'', JStr ''rejected''),
              (''approved_by'', JStr (employee_id admin)),
              (''approved_at'', JStr (localDateTime env)),
              (''rejection_reason'', JStr (reviewComment st))]
             ''id'' (JStr requestId)])
   \<and> calls_of (snd (approveMutation_mutationFn env (Some admin) requestId comment)) =
     [Update ''leave_requests''
        [(''status'', JStr ''approved''),
         (''approved_by'', JStr (employee_id admin)),
         (''approved_at'', JStr (localDateTime env)),
         (''rejection_reason'', if comment = [] then JNull else JStr comment)]
        ''id'' (JStr requestId)]
   \<and> (trim reason \<noteq> [] \<longrightarrow>
        calls_of (snd (rejectMutation_mutationFn env (Some admin) requestId reason)) =
          [Update ''leave_requests''
             [(''status'', JStr ''rejected''),
              (''approved_by'', JStr (employee_id admin)),
              (''approved_at'', JStr (localDateTime env)),
              (''rejection_reason'', JStr reason)]
             ''id'' (JStr requestId)])"
proof (intro conjI impI)
  show "calls_of (snd (handleApproveRequest env (Some admin) requestId st)) =
     [Update ''leave_requests''
        [(''status'', JStr ''approved''),
         (''approved_by'', JStr (employee_id admin)),
         (''approved_at'', JStr (localDateTime env)),
         (''rejection_reason'', if reviewComment st = [] then JNull else JStr (reviewComment st))]
        ''id'' (JStr requestId)]"
    unfolding handleApproveRequest_def approveMutation_mutate_calls
      approveMutation_mutationFn_calls by simp
next
  assume "trim (reviewComment st) \<noteq> []"
  then show "calls_of (snd (handleRejectRequest env (Some admin) requestId st)) =
          [Update ''leave_requests''
             [(''status'', JStr ''rejected''),
              (''approved_by'', JStr (employee_id admin)),
              (''approved_at'', JStr (localDateTime env)),
              (''rejection_reason'', JStr (reviewComment st))]
             ''id'' (JStr requestId)]"
    by (simp add: handleRejectRequest_def rejectMutation_mutate_calls
        rejectMutation_mutationFn_calls)
next
  show "calls_of (snd (approveMutation_mutationFn env (Some admin) requestId comment)) =
     [Update ''leave_requests''
        [(''status'', JStr ''approved''),
         (''approved_by'', JStr (employee_id admin)),
         (''approved_at'', JStr (localDateTime env)),
         (''rejection_reason'', if comment = [] then JNull else JStr comment)]
        ''id'' (JStr requestId)]"
    unfolding approveMutation_mutationFn_calls by simp
next
  assume "trim reason \<noteq> []"
  then show "calls_of (snd (rejectMutation_mutationFn env (Some admin) requestId reason)) =
          [Update ''leave_requests''
             [(''status'', JStr ''rejected''),
              (''approved_by'', JStr (employee_id admin)),
              (''approved_at'', JStr (localDateTime env)),
              (''rejection_reason'', JStr reason)]
             ''id'' (JStr requestId)]"
    by (simp add: rejectMutation_mutationFn_calls)
qed

lemma trim_no_cover: "trim ''no cover'' = ''no cover''"
  by (simp add: trim_def is_whitespace_def)

theorem leave_decision_single_update_witness:
  "calls_of (snd (handleRejectRequest sample_env (Some sample_admin) ''r1'' sample_review)) =
     [Update ''leave_requests''
        [(''status'', JStr ''rejected''),
         (''approved_by'', JStr ''A001''),
         (''approved_at'', JStr ''2025-01-15T09:00:00.000Z''),
         (''rejection_reason'', JStr ''no cover'')]
        ''id'' (JStr ''r1'')]
   \<and> calls_of (snd (rejectMutation_mutationFn sample_env (Some sample_admin) ''r1'' ''no cover'')) =
     [Update ''leave_requests''
        [(''status'', JStr ''rejected''),
         (''approved_by'', JStr ''A001''),
         (''approved_at'', JStr ''2025-01-15T09:00:00.000Z''),
         (''rejection_reason'', JStr ''no cover'')]
        ''id'' (JStr ''r1'')]
   \<and> calls_of (snd (handleApproveRequest sample_env (Some sample_admin) ''r1'' sample_review)) =
     [Update ''leave_requests''
        [(''status'', JStr ''approved''),
         (''approved_by'', JStr ''A001''),
         (''approved_at'', JStr ''2025-01-15T09:00:00.000Z''),
         (''rejection_reason'', JStr ''no cover'')]
        ''id'' (JStr ''r1'')]"
proof -
  have c: "reviewComment sample_review = ''no cover''" by (simp add: sample_review_def)
  have a: "trim (reviewComment sample_review) \<noteq> []" unfolding c trim_no_cover by simp
  have b: "trim ''no cover'' \<noteq> []" unfolding trim_no_cover by simp
  show ?thesis
    using a b leave_decision_single_update
      [of sample_env sample_admin "''r1''" sample_review "''no cover''" "''no cover''"]
    by (simp add: c sample_admin_def sample_env_def)
qed

text \<open>
  Claim C9. For every rejection reason that is empty or consists of white space only, the
  reject mutation throws \<open>Error("Rejection reason is required")\<close> before any call is issued,
  and \<open>onError\<close> shows that message; an update call is issued exactly when the trimmed reason
  is not empty.
\<close>

theorem rejectMutation_requires_reason:
  "((\<forall>c\<in>set reason. is_whitespace c) \<longrightarrow>
      rejectMutation_mutationFn env employee requestId reason =
        (Inl (Error ''Rejection reason is required''), [])
      \<and> rejectMutation_mutate env employee requestId reason st =
        (st, [ConsoleError ''Error rejecting leave:'',
              Toast \<lparr>title = ''Error'', description = ''Rejection reason is required'',
                     variant = Some ''destructive'', duration = None\<rparr>]))
   \<and> (calls_of (snd (rejectMutation_mutationFn env employee requestId reason)) \<noteq> [])
       = (trim reason \<noteq> [])
   \<and> (calls_of (snd (rejectMutation_mutate env employee requestId reason st)) \<noteq> [])
       = (trim reason \<noteq> [])"
proof (cases "trim reason = []")
  case True
  then have "\<forall>c\<in>set reason. is_whitespace c" by (simp add: trim_empty_iff)
  then show ?thesis
    using True
    by (simp add: rejectMutation_mutate_calls rejectMutation_mutationFn_blank[OF True]
        rejectMutation_mutate_def)
next
  case False
  then have "\<not> (\<forall>c\<in>set reason. is_whitespace c)" by (simp add: trim_empty_iff)
  then show ?thesis
    using False
    by (auto simp add: rejectMutation_mutate_calls rejectMutation_mutationFn_calls[OF False])
qed

theorem rejectMutation_requires_reason_witness:
  "is_whitespace CHR '' ''
   \<and> rejectMutation_mutationFn sample_env (Some sample_admin) ''r1'' ''  '' =
       (Inl (Error ''Rejection reason is required''), [])
   \<and> calls_of (snd (rejectMutation_mutate sample_env (Some sample_admin) ''r1'' ''  ''
        sample_review)) = []"
proof -
  have w: "is_whitespace CHR '' ''" by (simp add: is_whitespace_def)
  then have h: "\<forall>c\<in>set ''  ''. is_whitespace c" by simp
  have t: "trim ''  '' = []" by (simp add: trim_def w)
  show ?thesis
    using w h t rejectMutation_requires_reason
      [of "''  ''" sample_env "Some sample_admin" "''r1''" sample_review]
    by blast
qed

section \<open>Properties of the declared task status values\<close>

text \<open>
  Claim C8. One copy of the \<open>AdminTasks\<close> screen declares the task status as exactly
  \<open>pending\<close>, \<open>in_progress\<close>, \<open>completed\<close>, \<open>overdue\<close> (as the \<open>tasks\<close> row type does), the other as
  exactly \<open>not_started\<close>, \<open>in_progress\<close>, \<open>completed\<close>, \<open>shelved\<close>, \<open>accepted\<close>, \<open>rejected\<close>; the two
  sets of values are not equal, and share only \<open>in_progress\<close> and \<open>completed\<close>.
\<close>

theorem task_status_sets_differ:
  "set AdminTasks_other_Task_status = {''pending'', ''in_progress'', ''completed'', ''overdue''}
   \<and> set AdminTasks_Task_status =
       {''not_started'', ''in_progress'', ''completed'', ''shelved'', ''accepted'', ''rejected''}
   \<and> set AdminTasks_other_Task_status \<noteq> set AdminTasks_Task_status
   \<and> set AdminTasks_other_Task_status \<inter> set AdminTasks_Task_status =
       {''in_progress'', ''completed''}
   \<and> set supabase_tasks_status = set AdminTasks_other_Task_status
   \<and> set EmployeeTasks_Task_status \<noteq> set AdminTasks_other_Task_status
   \<and> set EmployeeTasks_Task_status \<noteq> set AdminTasks_Task_status"
proof -
  have p1: "''pending'' \<in> set AdminTasks_other_Task_status"
    by (simp add: AdminTasks_other_Task_status_def)
  have p2: "''pending'' \<notin> set AdminTasks_Task_status"
    by (simp add: AdminTasks_Task_status_def)
  have p3: "''pending'' \<in> set EmployeeTasks_Task_status"
    by (simp add: EmployeeTasks_Task_status_def)
  have p4: "''accepted'' \<in> set EmployeeTasks_Task_status"
    by (simp add: EmployeeTasks_Task_status_def)
  have p5: "''accepted'' \<notin> set AdminTasks_other_Task_status"
    by (simp add: AdminTasks_other_Task_status_def)
  have a: "set AdminTasks_other_Task_status \<noteq> set AdminTasks_Task_status"
    using p1 p2 by blast
  have b: "set EmployeeTasks_Task_status \<noteq> set AdminTasks_other_Task_status"
    using p4 p5 by blast
  have c: "set EmployeeTasks_Task_status \<noteq> set AdminTasks_Task_status"
    using p3 p2 by blast
  have d: "set AdminTasks_other_Task_status \<inter> set AdminTasks_Task_status =
       {''in_progress'', ''completed''}"
    by (auto simp add: AdminTasks_other_Task_status_def AdminTasks_Task_status_def)
  have e: "set supabase_tasks_status = set AdminTasks_other_Task_status"
    by (simp add: supabase_tasks_status_def AdminTasks_other_Task_status_def)
  have f: "set AdminTasks_other_Task_status =
      {''pending'', ''in_progress'', ''completed'', ''overdue''}"
    by (simp add: AdminTasks_other_Task_status_def)
  have g: "set AdminTasks_Task_status =
       {''not_started'', ''in_progress'', ''completed'', ''shelved'', ''accepted'', ''rejected''}"
    by (simp add: AdminTasks_Task_status_def)
  from f g a d e b c show ?thesis by (intro conjI)
qed

end
